theory Spec2Isabelle
  imports Main
begin

section \<open>Go runtime and library functions used by the generator\<close>

text \<open>
  The generator (\<^verbatim>\<open>cmd/mock_gen/main.go\<close>) indexes slices and dereferences pointers
  without guards. Each such run-time failure is a value of \<open>panic\<close>, and every function
  that can fail returns \<open>panic + 'a\<close> with \<open>Inl\<close> for the panic.
\<close>

datatype panic = IndexOutOfRange | NilPointerDereference | InterfaceConversion

text \<open>
  Go strings are byte sequences, modelled as \<open>string\<close>. \<^verbatim>\<open>strings.Fields\<close> splits
  around white space as \<^verbatim>\<open>unicode.IsSpace\<close> defines it; \<open>isSpace\<close> is its ASCII part
  (tab, line feed, vertical tab, form feed, carriage return, space). The model agrees
  with Go on every text in which no white-space rune beyond ASCII occurs.
\<close>

definition isSpace :: "char \<Rightarrow> bool" where
  "isSpace c \<longleftrightarrow> c \<in> {CHR 0x09, CHR 0x0A, CHR 0x0B, CHR 0x0C, CHR 0x0D, CHR 0x20}"

text \<open>
  \<^verbatim>\<open>strings.Fields(s)\<close>: the maximal runs of non-space bytes of \<open>s\<close>, in order; the
  empty list when \<open>s\<close> is empty or all white space. The first argument of
  \<open>Fields_from\<close> is the field being read.
\<close>

fun Fields_from :: "string \<Rightarrow> string \<Rightarrow> string list" where
  "Fields_from cur [] = (if cur = [] then [] else [cur])"
| "Fields_from cur (c # cs) =
     (if isSpace c
      then (if cur = [] then Fields_from [] cs else cur # Fields_from [] cs)
      else Fields_from (cur @ [c]) cs)"

definition Fields :: "string \<Rightarrow> string list" where
  "Fields s = Fields_from [] s"

text \<open>\<^verbatim>\<open>strings.Join(elems, sep)\<close>.\<close>

fun Join :: "string list \<Rightarrow> string \<Rightarrow> string" where
  "Join [] sep = []"
| "Join [a] sep = a"
| "Join (a # b # bs) sep = a @ sep @ Join (b # bs) sep"

text \<open>
  \<^verbatim>\<open>strings.Split(s, sep)\<close> for a non-empty separator: \<open>s\<close> is cut at each occurrence of
  \<open>sep\<close>, found from the left and not overlapping; the result always has at least one
  element, and \<open>Split [] sep = [[]]\<close>. (With an empty separator Go returns the UTF-8
  sequences of \<open>s\<close>; the generator only ever passes \<^verbatim>\<open>", "\<close>.)
\<close>

function Split_from :: "string \<Rightarrow> string \<Rightarrow> string \<Rightarrow> string list" where
  "Split_from sep cur [] = [cur]"
| "Split_from sep cur (c # cs) =
     (if sep \<noteq> [] \<and> take (length sep) (c # cs) = sep
      then cur # Split_from sep [] (drop (length sep) (c # cs))
      else Split_from sep (cur @ [c]) cs)"
  by pat_completeness auto
termination
  by (relation "measure (\<lambda>(sep, cur, s). length s)") auto

definition Split :: "string \<Rightarrow> string \<Rightarrow> string list" where
  "Split s sep = (if sep = [] then map (\<lambda>c. [c]) s else Split_from sep [] s)"

text \<open>\<^verbatim>\<open>fmt.Sprintf("%d", i)\<close> for a loop index \<open>i \<ge> 0\<close>.\<close>

fun decimal :: "nat \<Rightarrow> string" where
  "decimal n =
     (if n < 10 then [''0123456789'' ! n]
      else decimal (n div 10) @ [''0123456789'' ! (n mod 10)])"

declare decimal.simps [simp del]

section \<open>The syntax tree of \<^verbatim>\<open>go/ast\<close>\<close>

text \<open>
  The node kinds of \<^verbatim>\<open>ast.Expr\<close> that the generator inspects are constructors of
  \<open>expr\<close> with the children it reads; all other kinds are \<open>OtherExpr\<close>. An array type
  keeps its element type only (the length is never read). A \<^verbatim>\<open>*ast.FieldList\<close> may be
  nil, hence \<open>field list option\<close> where the generator tests for nil. The names of a field
  are the \<^verbatim>\<open>Name\<close>s of its identifiers.
\<close>

datatype nodekind =
    BadExpr | Ellipsis | BasicLit | FuncLit | CompositeLit | ParenExpr | IndexExpr
  | IndexListExpr | SliceExpr | TypeAssertExpr | CallExpr | UnaryExpr | BinaryExpr
  | KeyValueExpr | ChanType

datatype expr =
    Ident string
  | SelectorExpr expr string
  | StarExpr expr
  | ArrayType expr
  | MapType expr expr
  | InterfaceType "field list"
  | FuncType "field list option" "field list option"
  | StructType "field list"
  | OtherExpr nodekind
and field = Field (Names: "string list") (Type: expr)

datatype spec = ImportSpec | ValueSpec | TypeSpec string expr

datatype decl = BadDecl | GenDecl "spec list" | FuncDecl

section \<open>The type namer and the signature extractor\<close>

text \<open>
  \<^verbatim>\<open>getTypeName\<close>, \<^verbatim>\<open>getFunctionSignature\<close> and \<^verbatim>\<open>getParameters\<close> call each other.
  In the selector case \<^verbatim>\<open>x, _ := t.X.(*ast.Ident)\<close> leaves \<open>x\<close> nil when \<open>X\<close> is not an
  identifier, and \<^verbatim>\<open>x.Name\<close> then panics. \<open>getParameters_field\<close> is the body of the loop
  over \<^verbatim>\<open>fieldList.List\<close>: the source calls \<^verbatim>\<open>getTypeName(field.Type)\<close> once per name
  (once for a field without names), always with the same result.
\<close>

function getTypeName :: "expr \<Rightarrow> panic + string"
  and getFunctionSignature :: "field list option \<Rightarrow> field list option \<Rightarrow> panic + string"
  and getParameters :: "field list option \<Rightarrow> panic + string"
  and getParameters_loop :: "field list \<Rightarrow> panic + string list"
  and getParameters_field :: "field \<Rightarrow> panic + string list"
where
  "getTypeName (Ident name) = Inr name"
| "getTypeName (SelectorExpr x sel) =
     (case x of Ident name \<Rightarrow> Inr (name @ ''.'' @ sel) | _ \<Rightarrow> Inl NilPointerDereference)"
| "getTypeName (StarExpr x) =
     (case getTypeName x of Inl p \<Rightarrow> Inl p | Inr s \<Rightarrow> Inr ('''' @ s))"
| "getTypeName (ArrayType elt) =
     (case getTypeName elt of Inl p \<Rightarrow> Inl p | Inr s \<Rightarrow> Inr (''[]'' @ s))"
| "getTypeName (MapType k v) =
     (case getTypeName k of Inl p \<Rightarrow> Inl p
      | Inr key \<Rightarrow>
          (case getTypeName v of Inl p \<Rightarrow> Inl p
           | Inr val \<Rightarrow> Inr (''map['' @ key @ '']'' @ val)))"
| "getTypeName (InterfaceType ms) = Inr ''interface{}''"
| "getTypeName (FuncType ps rs) =
     (case getFunctionSignature ps rs of Inl p \<Rightarrow> Inl p | Inr s \<Rightarrow> Inr (''func'' @ s))"
| "getTypeName (StructType fs) = Inr ''''"
| "getTypeName (OtherExpr k) = Inr ''''"
| "getFunctionSignature ps rs =
     (case (if ps \<noteq> None
            then (case getParameters ps of Inl p \<Rightarrow> Inl p | Inr s \<Rightarrow> Inr [s])
            else Inr []) of
        Inl p \<Rightarrow> Inl p
      | Inr params \<Rightarrow>
          (case (if rs \<noteq> None
                 then (case getParameters rs of Inl p \<Rightarrow> Inl p | Inr s \<Rightarrow> Inr (params @ [s]))
                 else Inr params) of
             Inl p \<Rightarrow> Inl p
           | Inr params' \<Rightarrow> Inr (''('' @ Join params' '', '' @ '')'')))"
| "getParameters None = Inr (Join [] '', '')"
| "getParameters (Some fl) =
     (case getParameters_loop fl of Inl p \<Rightarrow> Inl p | Inr params \<Rightarrow> Inr (Join params '', ''))"
| "getParameters_loop [] = Inr []"
| "getParameters_loop (f # fl) =
     (case getParameters_field f of Inl p \<Rightarrow> Inl p
      | Inr a \<Rightarrow>
          (case getParameters_loop fl of Inl p \<Rightarrow> Inl p | Inr b \<Rightarrow> Inr (a @ b)))"
| "getParameters_field (Field names t) =
     (case getTypeName t of Inl p \<Rightarrow> Inl p
      | Inr s \<Rightarrow> Inr (if names = [] then [s] else map (\<lambda>name. name @ '' '' @ s) names))"
  by pat_completeness auto
termination
  by (relation "measure (\<lambda>x. case x of
         Inl (Inl e) \<Rightarrow> 5 * size e + 4
       | Inl (Inr (ps, rs)) \<Rightarrow>
           5 * (size_option (size_list size) ps + size_option (size_list size) rs + 1) + 3
       | Inr (Inl ps) \<Rightarrow> 5 * size_option (size_list size) ps + 2
       | Inr (Inr (Inl fl)) \<Rightarrow> 5 * size_list size fl + 1
       | Inr (Inr (Inr f)) \<Rightarrow> 5 * size f)") auto

section \<open>The mock assembler\<close>

text \<open>
  \<^verbatim>\<open>getArgumentNames\<close>: the first white-space-delimited token of each piece of the
  rendered parameter list; \<^verbatim>\<open>parts[0]\<close> panics when a piece has no token.
\<close>

fun getArgumentNames_loop :: "string list \<Rightarrow> panic + string list" where
  "getArgumentNames_loop [] = Inr []"
| "getArgumentNames_loop (param # params) =
     (case Fields param of
        [] \<Rightarrow> Inl IndexOutOfRange
      | part # parts \<Rightarrow>
          (case getArgumentNames_loop params of
             Inl p \<Rightarrow> Inl p
           | Inr argNames \<Rightarrow> Inr (part # argNames)))"

definition getArgumentNames :: "string \<Rightarrow> panic + string" where
  "getArgumentNames paramList =
     (case getArgumentNames_loop (Split paramList '', '') of
        Inl p \<Rightarrow> Inl p
      | Inr argNames \<Rightarrow> Inr (Join argNames '', ''))"

text \<open>
  \<^verbatim>\<open>getTypeNameFromString\<close>: the last token; \<^verbatim>\<open>parts[len(parts)-1]\<close> panics when there
  is none.
\<close>

definition getTypeNameFromString :: "string \<Rightarrow> panic + string" where
  "getTypeNameFromString typeString =
     (case Fields typeString of [] \<Rightarrow> Inl IndexOutOfRange | part # parts \<Rightarrow> Inr (last (part # parts)))"

text \<open>
  \<^verbatim>\<open>getReturnNames\<close>: \<open>getReturnNames_loop i\<close> is the loop from index \<open>i\<close> on, over the
  pieces \<^verbatim>\<open>returnNames[i:]\<close>.
\<close>

fun getReturnNames_loop :: "nat \<Rightarrow> string list \<Rightarrow> panic + string list" where
  "getReturnNames_loop i [] = Inr []"
| "getReturnNames_loop i (r # rs) =
     (case getTypeNameFromString r of
        Inl p \<Rightarrow> Inl p
      | Inr t \<Rightarrow>
          (case getReturnNames_loop (Suc i) rs of
             Inl p \<Rightarrow> Inl p
           | Inr names \<Rightarrow> Inr ((''args.Get('' @ decimal i @ '').('' @ t @ '')'') # names)))"

definition getReturnNames :: "string \<Rightarrow> panic + string" where
  "getReturnNames returnList =
     (case getReturnNames_loop 0 (Split returnList '', '') of
        Inl p \<Rightarrow> Inl p
      | Inr names \<Rightarrow> Inr (Join names '', ''))"

record MethodData =
  MethodCode :: string

record Mocks =
  MockName :: string
  Methods :: "MethodData list"

record TemplateData =
  Mocks :: "Mocks list"

text \<open>
  The body of the loop of \<^verbatim>\<open>getMethodsFromInterface\<close> over one element of
  \<^verbatim>\<open>interfaceType.Methods.List\<close>: \<^verbatim>\<open>method.Names[0]\<close> panics for an element without
  names (an embedded interface), \<^verbatim>\<open>method.Type.(*ast.FuncType)\<close> for one whose type is
  not a function type. The arguments of \<^verbatim>\<open>fmt.Sprintf\<close> are evaluated from left to right.
\<close>

definition tab :: string where
  "tab = [CHR 0x09]"

definition getMethodsFromInterface_method :: "string \<Rightarrow> field \<Rightarrow> panic + MethodData" where
  "getMethodsFromInterface_method mockName method =
     (case Names method of
        [] \<Rightarrow> Inl IndexOutOfRange
      | methodName # _ \<Rightarrow>
          (case Type method of
             FuncType ps rs \<Rightarrow>
               (case getParameters ps of
                  Inl p \<Rightarrow> Inl p
                | Inr paramList \<Rightarrow>
                    (case getParameters rs of
                       Inl p \<Rightarrow> Inl p
                     | Inr returnList \<Rightarrow>
                         (case getArgumentNames paramList of
                            Inl p \<Rightarrow> Inl p
                          | Inr argumentNames \<Rightarrow>
                              (case getReturnNames returnList of
                                 Inl p \<Rightarrow> Inl p
                               | Inr returnNames \<Rightarrow>
                                   Inr \<lparr>MethodCode =
                                     ''func (m *'' @ mockName @ '') '' @ methodName
                                     @ ''('' @ paramList @ '') ('' @ returnList
                                     @ '') {\<newline>'' @ tab @ ''args := m.Called(''
                                     @ argumentNames @ '')\<newline>'' @ tab @ ''return ''
                                     @ returnNames @ ''\<newline>}''\<rparr>))))
           | _ \<Rightarrow> Inl InterfaceConversion))"

fun getMethodsFromInterface :: "field list \<Rightarrow> string \<Rightarrow> panic + MethodData list" where
  "getMethodsFromInterface [] mockName = Inr []"
| "getMethodsFromInterface (method # ms) mockName =
     (case getMethodsFromInterface_method mockName method of
        Inl p \<Rightarrow> Inl p
      | Inr m \<Rightarrow>
          (case getMethodsFromInterface ms mockName of
             Inl p \<Rightarrow> Inl p
           | Inr methods \<Rightarrow> Inr (m # methods)))"

section \<open>The renderer\<close>

text \<open>
  What \<^verbatim>\<open>text/template\<close> writes for \<^verbatim>\<open>mockTemplate\<close>. The trim marker of
  \<^verbatim>\<open>{{- range .Methods }}\<close> removes the line feed after the closing brace of the struct,
  that of \<^verbatim>\<open>{{- end }}\<close> the line feed after the method code, and that of
  \<^verbatim>\<open>{{ end -}}\<close> the final line feed of the template; the line feed between the two
  \<^verbatim>\<open>end\<close> actions is written once per mock.
\<close>

definition mockTemplate_header :: string where
  \<open>mockTemplate_header =
     ''\<newline>package mocks\<newline>\<newline>import (\<newline>'' @ tab
     @ ''"github.com/stretchr/testify/mock"\<newline>)\<newline>''\<close>

definition mockTemplate_method :: "MethodData \<Rightarrow> string" where
  "mockTemplate_method m = ''\<newline>\<newline>'' @ MethodCode m"

definition mockTemplate_mock :: "Mocks \<Rightarrow> string" where
  "mockTemplate_mock m =
     ''\<newline>type '' @ MockName m @ '' struct {\<newline>'' @ tab @ ''mock.Mock\<newline>}''
     @ concat (map mockTemplate_method (Methods m)) @ ''\<newline>''"

definition mockTemplate :: "TemplateData \<Rightarrow> string" where
  "mockTemplate d = mockTemplate_header @ concat (map mockTemplate_mock (Mocks d))"

section \<open>The declaration parser\<close>

text \<open>
  The three nested loops of \<^verbatim>\<open>interfaceToMock\<close>, each returning the mocks it appends to
  \<^verbatim>\<open>templateData.Mocks\<close>. For a struct field of interface type \<^verbatim>\<open>field.Names[0]\<close> is
  read before the methods are built.
\<close>

fun interfaceToMock_fields :: "field list \<Rightarrow> panic + Mocks list" where
  "interfaceToMock_fields [] = Inr []"
| "interfaceToMock_fields (f # fl) =
     (case Type f of
        InterfaceType ms \<Rightarrow>
          (case Names f of
             [] \<Rightarrow> Inl IndexOutOfRange
           | n # _ \<Rightarrow>
               (case getMethodsFromInterface ms (n @ ''Mock'') of
                  Inl p \<Rightarrow> Inl p
                | Inr methods \<Rightarrow>
                    (case interfaceToMock_fields fl of
                       Inl p \<Rightarrow> Inl p
                     | Inr mocks \<Rightarrow> Inr (\<lparr>MockName = n @ ''Mock'', Methods = methods\<rparr> # mocks))))
      | _ \<Rightarrow> interfaceToMock_fields fl)"

fun interfaceToMock_spec :: "spec \<Rightarrow> panic + Mocks list" where
  "interfaceToMock_spec (TypeSpec n (InterfaceType ms)) =
     (case getMethodsFromInterface ms (n @ ''Mock'') of
        Inl p \<Rightarrow> Inl p
      | Inr methods \<Rightarrow> Inr [\<lparr>MockName = n @ ''Mock'', Methods = methods\<rparr>])"
| "interfaceToMock_spec (TypeSpec n (StructType fl)) = interfaceToMock_fields fl"
| "interfaceToMock_spec _ = Inr []"

fun interfaceToMock_specs :: "spec list \<Rightarrow> panic + Mocks list" where
  "interfaceToMock_specs [] = Inr []"
| "interfaceToMock_specs (s # ss) =
     (case interfaceToMock_spec s of
        Inl p \<Rightarrow> Inl p
      | Inr a \<Rightarrow>
          (case interfaceToMock_specs ss of Inl p \<Rightarrow> Inl p | Inr b \<Rightarrow> Inr (a @ b)))"

fun interfaceToMock_decls :: "decl list \<Rightarrow> panic + Mocks list" where
  "interfaceToMock_decls [] = Inr []"
| "interfaceToMock_decls (d # ds) =
     (case (case d of GenDecl specs \<Rightarrow> interfaceToMock_specs specs | _ \<Rightarrow> Inr []) of
        Inl p \<Rightarrow> Inl p
      | Inr a \<Rightarrow>
          (case interfaceToMock_decls ds of Inl p \<Rightarrow> Inl p | Inr b \<Rightarrow> Inr (a @ b)))"

text \<open>
  \<^verbatim>\<open>interfaceToMock\<close>. The parser of \<^verbatim>\<open>go/parser\<close> is a parameter: \<open>ParseFile src\<close> is
  \<open>Inl err\<close> when \<^verbatim>\<open>parser.ParseFile\<close> returns an error and \<open>Inr decls\<close> with
  \<^verbatim>\<open>node.Decls\<close> otherwise. The writer is the text written to it so far; the call
  returns its outcome (a panic, or the returned error, \<open>None\<close> for nil) and the writer
  afterwards. The template is a constant that parses, and executing it on a writer
  that accepts every write does not fail, so the two template errors have no branch.
\<close>

datatype error = ParseFileError string

definition interfaceToMock ::
  "(string \<Rightarrow> string + decl list) \<Rightarrow> string \<Rightarrow> string \<Rightarrow> (panic + error option) \<times> string"
where
  "interfaceToMock ParseFile writer interfaceCode =
     (case ParseFile (''package main\<newline>'' @ interfaceCode) of
        Inl err \<Rightarrow> (Inr (Some (ParseFileError err)), writer)
      | Inr decls \<Rightarrow>
          (case interfaceToMock_decls decls of
             Inl p \<Rightarrow> (Inl p, writer)
           | Inr mocks \<Rightarrow> (Inr None, writer @ mockTemplate \<lparr>Mocks = mocks\<rparr>)))"

section \<open>Vocabulary of the specification\<close>

text \<open>
  The definitions of this section are not translations of the source. They name the
  inputs and the expected results that the properties below speak about.
\<close>

text \<open>
  A text is \<open>plain\<close> when it is not empty and has no white space and no comma, as every
  Go identifier is. A type expression renders plain when the type namer returns such a
  text for it; a field is plain when its type renders plain and its names are plain.
\<close>

definition plain :: "string \<Rightarrow> bool" where
  "plain s \<longleftrightarrow> s \<noteq> [] \<and> (\<forall>c\<in>set s. \<not> isSpace c \<and> c \<noteq> CHR '','')"

definition render :: "expr \<Rightarrow> string" where
  "render e = (case getTypeName e of Inl p \<Rightarrow> [] | Inr s \<Rightarrow> s)"

definition rendersPlain :: "expr \<Rightarrow> bool" where
  "rendersPlain e \<longleftrightarrow> (case getTypeName e of Inl p \<Rightarrow> False | Inr s \<Rightarrow> plain s)"

definition plainField :: "field \<Rightarrow> bool" where
  "plainField f \<longleftrightarrow> rendersPlain (Type f) \<and> (\<forall>n\<in>set (Names f). plain n)"




text \<open>
  The types built from plain identifiers and qualified names by pointers, slices and
  maps, and the inline interfaces: all of them render plain (\<open>plainType_rendersPlain\<close>).
\<close>

fun plainType :: "expr \<Rightarrow> bool" where
  "plainType (Ident name) = plain name"
| "plainType (SelectorExpr x sel) =
     (case x of Ident name \<Rightarrow> plain name \<and> plain sel | _ \<Rightarrow> False)"
| "plainType (StarExpr x) = plainType x"
| "plainType (ArrayType elt) = plainType elt"
| "plainType (MapType k v) = (plainType k \<and> plainType v)"
| "plainType (InterfaceType ms) = True"
| "plainType (FuncType ps rs) = False"
| "plainType (StructType fs) = False"
| "plainType (OtherExpr k) = False"

text \<open>
  The Parameter sequence of the specification's data model for a field list: one
  Parameter per name of a field, in the names' order, and one unnamed Parameter for a
  field without names; each carries the type expression of its field.
\<close>

fun spec_parameters :: "field list \<Rightarrow> (string option \<times> expr) list" where
  "spec_parameters [] = []"
| "spec_parameters (f # fl) =
     (if Names f = [] then [(None, Type f)] else map (\<lambda>n. (Some n, Type f)) (Names f))
     @ spec_parameters fl"

definition plainParameter :: "string option \<times> expr \<Rightarrow> bool" where
  "plainParameter x \<longleftrightarrow>
     rendersPlain (snd x) \<and> (case fst x of None \<Rightarrow> True | Some n \<Rightarrow> plain n)"

text \<open>
  The rendered text of a Parameter (\<open>name type\<close>, or \<open>type\<close> alone when unnamed), the
  call-site name the specification derives for it (its name, or the type text when
  unnamed), and the extraction expression for result position \<open>i\<close> with bare type \<open>t\<close>.
\<close>

definition spec_rendered :: "string option \<times> expr \<Rightarrow> string" where
  "spec_rendered x =
     (case fst x of None \<Rightarrow> render (snd x) | Some n \<Rightarrow> n @ '' '' @ render (snd x))"

definition spec_argumentName :: "string option \<times> expr \<Rightarrow> string" where
  "spec_argumentName x = (case fst x of None \<Rightarrow> render (snd x) | Some n \<Rightarrow> n)"


text \<open>
  The node kinds the type namer has a case for: identifier, qualified name, pointer,
  slice, map, inline interface and function type.
\<close>

fun supported :: "expr \<Rightarrow> bool" where
  "supported (Ident name) = True"
| "supported (SelectorExpr x sel) = True"
| "supported (StarExpr x) = True"
| "supported (ArrayType elt) = True"
| "supported (MapType k v) = True"
| "supported (InterfaceType ms) = True"
| "supported (FuncType ps rs) = True"
| "supported (StructType fs) = False"
| "supported (OtherExpr k) = False"

text \<open>
  The interfaces that \<^verbatim>\<open>interfaceToMock\<close> visits in a type specification: the declared
  interface type itself, or the interface-typed fields of a declared struct type.
\<close>

fun spec_interfaces :: "spec \<Rightarrow> field list list" where
  "spec_interfaces (TypeSpec n (InterfaceType ms)) = [ms]"
| "spec_interfaces (TypeSpec n (StructType fl)) =
     concat (map (\<lambda>f. case Type f of InterfaceType ms \<Rightarrow> [ms] | _ \<Rightarrow> []) fl)"
| "spec_interfaces _ = []"

subsection \<open>Concrete inputs\<close>

text \<open>
  The end-to-end scenario of the specification: the source text, the declarations
  \<^verbatim>\<open>go/parser\<close> builds for it, and the expected output.
\<close>

definition bidule_source :: string where
  "bidule_source = ''type bidule interface { Method1(arg1 string, arg2 int) (string, error) }''"

definition bidule_decls :: "decl list" where
  "bidule_decls =
     [GenDecl [TypeSpec ''bidule'' (InterfaceType
        [Field [''Method1'']
           (FuncType
              (Some [Field [''arg1''] (Ident ''string''), Field [''arg2''] (Ident ''int'')])
              (Some [Field [] (Ident ''string''), Field [] (Ident ''error'')]))])]]"

definition bidule_output :: string where
  \<open>bidule_output =
     ''\<newline>package mocks\<newline>\<newline>import (\<newline>'' @ tab
     @ ''"github.com/stretchr/testify/mock"\<newline>)\<newline>''
     @ ''\<newline>type biduleMock struct {\<newline>'' @ tab @ ''mock.Mock\<newline>}\<newline>''
     @ ''\<newline>func (m *biduleMock) Method1(arg1 string, arg2 int) (string, error) {\<newline>''
     @ tab @ ''args := m.Called(arg1, arg2)\<newline>''
     @ tab @ ''return args.Get(0).(string), args.Get(1).(error)\<newline>}\<newline>''\<close>

text \<open>
  The case \<^verbatim>\<open>classic_2\<close> of the repository's test: a struct \<^verbatim>\<open>s\<close> with the two
  interface-typed fields \<^verbatim>\<open>bidule\<close> and \<^verbatim>\<open>chose\<close>, and the output the test expects.
\<close>

definition classic_2_decls :: "decl list" where
  "classic_2_decls =
     [GenDecl [TypeSpec ''s'' (StructType
        [Field [''bidule''] (InterfaceType
           [Field [''Method1''] (FuncType
              (Some [Field [''arg1''] (Ident ''string''), Field [''arg2''] (Ident ''int'')])
              (Some [Field [] (Ident ''string''), Field [] (Ident ''error'')])),
            Field [''Method2''] (FuncType
              (Some [Field [''arg1''] (Ident ''bool''), Field [''arg2''] (Ident ''int'')])
              (Some [Field [] (Ident ''string''), Field [] (Ident ''error'')]))]),
         Field [''chose''] (InterfaceType
           [Field [''Method1''] (FuncType
              (Some [Field [''arg1''] (Ident ''string''), Field [''arg2''] (Ident ''int'')])
              (Some [Field [] (Ident ''string''), Field [] (Ident ''error'')])),
            Field [''Method2''] (FuncType
              (Some [Field [''arg1''] (ArrayType (Ident ''string'')), Field [''arg2''] (Ident ''int'')])
              (Some [Field [] (Ident ''string''), Field [] (Ident ''error'')]))])])]]"

definition classic_2_expected :: string where
  \<open>classic_2_expected =
     ''\<newline>package mocks\<newline>\<newline>import (\<newline>'' @ tab
     @ ''"github.com/stretchr/testify/mock"\<newline>)\<newline>''
     @ ''\<newline>type biduleMock struct {\<newline>'' @ tab @ ''mock.Mock\<newline>}\<newline>''
     @ ''\<newline>func (m *biduleMock) Method1(arg1 string, arg2 int) (string, error) {\<newline>''
     @ tab @ ''args := m.Called(arg1, arg2)\<newline>''
     @ tab @ ''return args.Get(0).(string), args.Get(1).(error)\<newline>}\<newline>''
     @ ''\<newline>func (m *biduleMock) Method2(arg1 bool, arg2 int) (string, error) {\<newline>''
     @ tab @ ''args := m.Called(arg1, arg2)\<newline>''
     @ tab @ ''return args.Get(0).(string), args.Get(1).(error)\<newline>}\<newline>''
     @ ''\<newline>type choseMock struct {\<newline>'' @ tab @ ''mock.Mock\<newline>}\<newline>''
     @ ''\<newline>func (m *choseMock) Method1(arg1 string, arg2 int) (string, error) {\<newline>''
     @ tab @ ''args := m.Called(arg1, arg2)\<newline>''
     @ tab @ ''return args.Get(0).(string), args.Get(1).(error)\<newline>}\<newline>''
     @ ''\<newline>func (m *choseMock) Method2(arg1 []string, arg2 int) (string, error) {\<newline>''
     @ tab @ ''args := m.Called(arg1, arg2)\<newline>''
     @ tab @ ''return args.Get(0).(string), args.Get(1).(error)\<newline>}\<newline>''\<close>

text \<open>
  \<^verbatim>\<open>type pinger interface { Ping() error }\<close>: a method with an empty parameter list.
  The parser gives such a method a parameter list that is not nil and has no field.
\<close>

definition pinger_decls :: "decl list" where
  "pinger_decls =
     [GenDecl [TypeSpec ''pinger'' (InterfaceType
        [Field [''Ping''] (FuncType (Some []) (Some [Field [] (Ident ''error'')]))])]]"

text \<open>
  \<^verbatim>\<open>type notifier interface { Notify(msg string) }\<close>: a method with zero results. The
  parser leaves the result list of such a method nil.
\<close>

definition notifier_decls :: "decl list" where
  "notifier_decls =
     [GenDecl [TypeSpec ''notifier'' (InterfaceType
        [Field [''Notify''] (FuncType (Some [Field [''msg''] (Ident ''string'')]) None)])]]"











section \<open>Text splitting and joining\<close>

lemma Fields_from_run:
  "\<forall>c\<in>set p. \<not> isSpace c \<Longrightarrow> Fields_from cur (p @ rest) = Fields_from (cur @ p) rest"
  by (induction p arbitrary: cur) simp_all

lemma Fields_token: "p \<noteq> [] \<Longrightarrow> \<forall>c\<in>set p. \<not> isSpace c \<Longrightarrow> Fields p = [p]"
  using Fields_from_run [of p "[]" "[]"] by (simp add: Fields_def)

lemma Fields_name_rest:
  assumes "n \<noteq> []" "\<forall>c\<in>set n. \<not> isSpace c"
  shows "Fields (n @ '' '' @ t) = n # Fields t"
proof -
  have "Fields (n @ '' '' @ t) = Fields_from n ('' '' @ t)"
    using Fields_from_run [of n "[]" "'' '' @ t"] assms by (simp add: Fields_def)
  also have "\<dots> = n # Fields_from [] t"
    using assms by (simp add: isSpace_def)
  finally show ?thesis by (simp add: Fields_def)
qed

lemma Fields_name_type:
  assumes "n \<noteq> []" "\<forall>c\<in>set n. \<not> isSpace c" "t \<noteq> []" "\<forall>c\<in>set t. \<not> isSpace c"
  shows "Fields (n @ '' '' @ t) = [n, t]"
proof -
  have "Fields (n @ '' '' @ t) = n # Fields t"
    using assms(1,2) by (rule Fields_name_rest)
  also have "Fields t = [t]"
    using assms(3,4) by (rule Fields_token)
  finally show ?thesis .
qed

lemma Split_from_run:
  "\<forall>c\<in>set p. c \<noteq> CHR '','' \<Longrightarrow>
     Split_from '', '' cur (p @ rest) = Split_from '', '' (cur @ p) rest"
  by (induction p arbitrary: cur) simp_all

lemma Split_from_sep:
  "Split_from '', '' cur ('', '' @ rest) = cur # Split_from '', '' [] rest"
  by simp

lemma Split_from_Join:
  "\<forall>p\<in>set (p0 # ps). \<forall>c\<in>set p. c \<noteq> CHR '','' \<Longrightarrow>
     Split_from '', '' cur (Join (p0 # ps) '', '') = (cur @ p0) # ps"
proof (induction ps arbitrary: cur p0)
  case Nil
  then show ?case using Split_from_run [of p0 cur "[]"] by simp
next
  case (Cons q qs)
  have "Split_from '', '' cur (Join (p0 # q # qs) '', '')
      = Split_from '', '' (cur @ p0) ('', '' @ Join (q # qs) '', '')"
    using Cons.prems Split_from_run [of p0 cur "'', '' @ Join (q # qs) '', ''"] by simp
  also have "\<dots> = (cur @ p0) # Split_from '', '' [] (Join (q # qs) '', '')"
    by (rule Split_from_sep)
  also have "Split_from '', '' [] (Join (q # qs) '', '') = q # qs"
    using Cons.IH [of q "[]"] Cons.prems by simp
  finally show ?case .
qed

lemma Split_Join:
  "ps \<noteq> [] \<Longrightarrow> \<forall>p\<in>set ps. \<forall>c\<in>set p. c \<noteq> CHR '','' \<Longrightarrow>
     Split (Join ps '', '') '', '' = ps"
  using Split_from_Join [of "hd ps" "tl ps" "[]"] by (cases ps) (simp_all add: Split_def)






section \<open>Plain fields through the pipeline\<close>

lemma rendersPlain_render:
  "rendersPlain e \<Longrightarrow> getTypeName e = Inr (render e) \<and> plain (render e)"
  by (auto simp: rendersPlain_def render_def split: sum.splits)

lemma plainField_parameters:
  "\<forall>f\<in>set fl. plainField f \<Longrightarrow> \<forall>x\<in>set (spec_parameters fl). plainParameter x"
  by (induction fl) (auto simp: plainField_def plainParameter_def)



lemma plainParameter_unnamed: "plainParameter (None, e) \<Longrightarrow> plain (render e)"
  by (simp add: plainParameter_def rendersPlain_render)

lemma plainParameter_named: "plainParameter (Some n, e) \<Longrightarrow> plain n \<and> plain (render e)"
  by (simp add: plainParameter_def rendersPlain_render)

lemma spec_rendered_no_comma:
  "plainParameter x \<Longrightarrow> \<forall>c\<in>set (spec_rendered x). c \<noteq> CHR '',''"
proof (cases x)
  case (Pair a e)
  assume p: "plainParameter x"
  show ?thesis
  proof (cases a)
    case None
    with p Pair have "plain (render e)" by (simp add: plainParameter_unnamed)
    with None Pair show ?thesis by (simp add: spec_rendered_def plain_def)
  next
    case (Some n)
    with p Pair have "plain n \<and> plain (render e)" by (simp add: plainParameter_named)
    with Some Pair show ?thesis by (auto simp: spec_rendered_def plain_def)
  qed
qed

lemma Fields_unnamed:
  "plainParameter (None, e) \<Longrightarrow> Fields (spec_rendered (None, e)) = [render e]"
  using plainParameter_unnamed [of e] by (simp add: spec_rendered_def plain_def Fields_token)

lemma Fields_named:
  "plainParameter (Some n, e) \<Longrightarrow> Fields (spec_rendered (Some n, e)) = [n, render e]"
  using plainParameter_named [of n e] Fields_name_type [of n "render e"]
  by (simp add: spec_rendered_def plain_def)


lemma first_field_plain:
  "plainParameter x \<Longrightarrow> \<exists>parts. Fields (spec_rendered x) = spec_argumentName x # parts"
proof (cases x)
  case (Pair a e)
  assume "plainParameter x"
  with Pair show ?thesis
    by (cases a) (simp_all add: spec_argumentName_def Fields_unnamed Fields_named)
qed


lemma getArgumentNames_loop_plain:
  "\<forall>x\<in>set xs. plainParameter x \<Longrightarrow>
     getArgumentNames_loop (map spec_rendered xs) = Inr (map spec_argumentName xs)"
proof (induction xs)
  case Nil
  then show ?case by simp
next
  case (Cons x xs)
  obtain parts where "Fields (spec_rendered x) = spec_argumentName x # parts"
    using Cons.prems first_field_plain [of x] by auto
  with Cons show ?case by simp
qed

lemma spec_parameters_nonempty: "fl \<noteq> [] \<Longrightarrow> spec_parameters fl \<noteq> []"
  by (cases fl) auto


lemma Split_rendered:
  assumes "xs \<noteq> []" "\<forall>x\<in>set xs. plainParameter x"
  shows "Split (Join (map spec_rendered xs) '', '') '', '' = map spec_rendered xs"
proof (rule Split_Join)
  show "map spec_rendered xs \<noteq> []" using assms(1) by simp
  show "\<forall>p\<in>set (map spec_rendered xs). \<forall>c\<in>set p. c \<noteq> CHR '',''"
    using assms(2) spec_rendered_no_comma by auto
qed



lemma getArgumentNames_plain:
  assumes "fl \<noteq> []" "\<forall>f\<in>set fl. plainField f"
  shows "getArgumentNames (Join (map spec_rendered (spec_parameters fl)) '', '')
       = Inr (Join (map spec_argumentName (spec_parameters fl)) '', '')"
proof -
  have pp: "\<forall>x\<in>set (spec_parameters fl). plainParameter x"
    using assms(2) by (rule plainField_parameters)
  have ne: "spec_parameters fl \<noteq> []"
    using assms(1) by (rule spec_parameters_nonempty)
  show ?thesis
    using getArgumentNames_loop_plain [OF pp]
    by (simp add: getArgumentNames_def Split_rendered [OF ne pp])
qed

section \<open>Comma-free fields through the pipeline\<close>





















section \<open>The type namer\<close>

text \<open>
  Claim C7: for every type expression \<open>t\<close>, rendering the pointer type \<open>*t\<close> yields exactly
  what rendering \<open>t\<close> yields (the same text, or the same panic), so a parameter or
  result field of pointer type renders as the field of the pointee type does.
\<close>

theorem pointer_renders_as_pointee:
  "getTypeName (StarExpr t) = getTypeName t
   \<and> getParameters_field (Field names (StarExpr t)) = getParameters_field (Field names t)"
  by (cases "getTypeName t") simp_all

theorem pointer_renders_as_pointee_witness:
  "getTypeName (StarExpr (Ident ''int'')) = Inr ''int''
   \<and> getParameters_field (Field [''a''] (StarExpr (Ident ''int''))) = Inr [''a int'']"
  using pointer_renders_as_pointee [of "Ident ''int''" "[''a'']"] by simp

text \<open>
  Claim C8: for every node kind outside the supported set (identifier, qualified name,
  pointer, slice, map, inline interface, function type) the type namer returns the empty
  text and does not panic; an inline interface type renders as \<open>interface{}\<close>.
\<close>

theorem unsupported_renders_empty:
  "(\<not> supported e \<longrightarrow> getTypeName e = Inr '''')
   \<and> getTypeName (InterfaceType ms) = Inr ''interface{}''"
  by (cases e) simp_all

theorem unsupported_renders_empty_witness:
  "\<not> supported (OtherExpr ChanType) \<and> getTypeName (OtherExpr ChanType) = Inr ''''
   \<and> getTypeName (InterfaceType []) = Inr ''interface{}''"
  using unsupported_renders_empty [of "OtherExpr ChanType" "[]"] by simp

section \<open>Parse errors\<close>

text \<open>
  Claim C4: when the parser rejects the input wrapped in the package clause, the call
  returns the parse error and the writer holds exactly what it held before the call.
\<close>

theorem parse_error_writes_nothing:
  assumes "ParseFile (''package main\<newline>'' @ interfaceCode) = Inl err"
  shows "interfaceToMock ParseFile writer interfaceCode = (Inr (Some (ParseFileError err)), writer)"
  using assms by (simp add: interfaceToMock_def)

theorem parse_error_writes_nothing_witness:
  "interfaceToMock (\<lambda>src. Inl ''2:1: expected declaration, found bidule'') ''kept'' ''bidule''
     = (Inr (Some (ParseFileError ''2:1: expected declaration, found bidule'')), ''kept'')"
  by (rule parse_error_writes_nothing) simp

section \<open>End-to-end scenarios\<close>

lemma bidule_argument_names: "getArgumentNames ''arg1 string, arg2 int'' = Inr ''arg1, arg2''"
  by (simp add: getArgumentNames_def Split_def Fields_def isSpace_def)

lemma bidule_return_names:
  "getReturnNames ''string, error'' = Inr ''args.Get(0).(string), args.Get(1).(error)''"
  by (simp add: getReturnNames_def getTypeNameFromString_def Split_def Fields_def isSpace_def
      decimal.simps)

lemma bidule_mocks:
  "interfaceToMock_decls bidule_decls =
     Inr [\<lparr>MockName = ''biduleMock'', Methods = [\<lparr>MethodCode =
       ''func (m *biduleMock) Method1(arg1 string, arg2 int) (string, error) {\<newline>''
       @ tab @ ''args := m.Called(arg1, arg2)\<newline>''
       @ tab @ ''return args.Get(0).(string), args.Get(1).(error)\<newline>}''\<rparr>]\<rparr>]"
  by (simp add: bidule_decls_def getMethodsFromInterface_method_def bidule_argument_names
      bidule_return_names)

text \<open>
  Claim C3: on the input \<^verbatim>\<open>type bidule interface { Method1(arg1 string, arg2 int)
  (string, error) }\<close>, which the parser turns into \<open>bidule_decls\<close>, the call returns nil
  and appends to the writer exactly \<open>bidule_output\<close>: the fixed header, the struct
  \<^verbatim>\<open>biduleMock\<close> embedding \<^verbatim>\<open>mock.Mock\<close>, and the one method \<^verbatim>\<open>Method1\<close> whose body is
  \<^verbatim>\<open>args := m.Called(arg1, arg2)\<close> followed by
  \<^verbatim>\<open>return args.Get(0).(string), args.Get(1).(error)\<close>.
\<close>

theorem bidule_end_to_end:
  assumes "ParseFile (''package main\<newline>'' @ bidule_source) = Inr bidule_decls"
  shows "interfaceToMock ParseFile writer bidule_source = (Inr None, writer @ bidule_output)"
  using assms
  by (simp add: interfaceToMock_def bidule_mocks mockTemplate_def mockTemplate_mock_def
      mockTemplate_method_def mockTemplate_header_def bidule_output_def)

theorem bidule_end_to_end_witness:
  "interfaceToMock (\<lambda>src. Inr bidule_decls) [] bidule_source = (Inr None, bidule_output)"
  using bidule_end_to_end [of "\<lambda>src. Inr bidule_decls" "[]"] by simp

text \<open>
  Claim C9: an interface declared with zero methods yields a mock with an empty method
  list, which the template renders as the struct block \<^verbatim>\<open><TypeName>Mock\<close> embedding
  \<^verbatim>\<open>mock.Mock\<close> followed by a line feed and no method; for an input that declares just
  this interface the call returns nil and writes the header and that block.
\<close>

theorem zero_method_interface:
  "getMethodsFromInterface [] mockName = Inr []
   \<and> interfaceToMock_spec (TypeSpec n (InterfaceType []))
       = Inr [\<lparr>MockName = n @ ''Mock'', Methods = []\<rparr>]
   \<and> mockTemplate_mock \<lparr>MockName = n @ ''Mock'', Methods = []\<rparr>
       = ''\<newline>type '' @ n @ ''Mock struct {\<newline>'' @ tab @ ''mock.Mock\<newline>}\<newline>''
   \<and> (ParseFile (''package main\<newline>'' @ interfaceCode)
          = Inr [GenDecl [TypeSpec n (InterfaceType [])]]
        \<longrightarrow> interfaceToMock ParseFile writer interfaceCode
            = (Inr None, writer @ mockTemplate_header
                 @ ''\<newline>type '' @ n @ ''Mock struct {\<newline>'' @ tab @ ''mock.Mock\<newline>}\<newline>''))"
  by (simp add: interfaceToMock_def mockTemplate_def mockTemplate_mock_def)

theorem zero_method_interface_witness:
  "interfaceToMock (\<lambda>src. Inr [GenDecl [TypeSpec ''empty'' (InterfaceType [])]]) []
     ''type empty interface {}''
   = (Inr None, mockTemplate_header
        @ ''\<newline>type emptyMock struct {\<newline>'' @ tab @ ''mock.Mock\<newline>}\<newline>'')"
  using zero_method_interface [of "''x''" "''empty''"
      "\<lambda>src. Inr [GenDecl [TypeSpec ''empty'' (InterfaceType [])]]" "''type empty interface {}''" "[]"]
  by simp

text \<open>
  The model reproduces the expected output of the test case \<^verbatim>\<open>classic_2\<close>, which goes
  through the struct branch, two mocks and four methods.
\<close>

lemma test_classic_2:
  "interfaceToMock (\<lambda>src. Inr classic_2_decls) [] src = (Inr None, classic_2_expected)"
  by (simp add: interfaceToMock_def classic_2_decls_def classic_2_expected_def
      getMethodsFromInterface_method_def getArgumentNames_def getReturnNames_def
      getTypeNameFromString_def Split_def Fields_def isSpace_def decimal.simps
      mockTemplate_def mockTemplate_mock_def mockTemplate_method_def mockTemplate_header_def)

section \<open>Panics\<close>

lemma getArgumentNames_empty: "getArgumentNames [] = Inl IndexOutOfRange"
  by (simp add: getArgumentNames_def Split_def Fields_def)

lemma getReturnNames_empty: "getReturnNames [] = Inl IndexOutOfRange"
  by (simp add: getReturnNames_def getTypeNameFromString_def Split_def Fields_def)

lemma method_without_parameters:
  assumes "ps = None \<or> ps = Some []"
  shows "\<exists>p. getMethodsFromInterface_method mockName (Field names (FuncType ps rs)) = Inl p"
proof -
  have "getParameters ps = Inr []" using assms by auto
  then show ?thesis
    by (simp add: getMethodsFromInterface_method_def getArgumentNames_empty
        split: list.splits sum.splits)
qed

lemma method_without_results:
  "\<exists>p. getMethodsFromInterface_method mockName (Field names (FuncType ps None)) = Inl p"
  by (simp add: getMethodsFromInterface_method_def getReturnNames_empty
      split: list.splits sum.splits)

lemma getMethodsFromInterface_panics:
  "m \<in> set ms \<Longrightarrow> \<exists>p. getMethodsFromInterface_method mockName m = Inl p \<Longrightarrow>
     \<exists>p. getMethodsFromInterface ms mockName = Inl p"
  by (induction ms) (auto split: sum.splits)

lemma interfaceToMock_fields_panics:
  "f \<in> set fl \<Longrightarrow> Type f = InterfaceType ms \<Longrightarrow>
     \<forall>mockName. \<exists>p. getMethodsFromInterface ms mockName = Inl p \<Longrightarrow>
     \<exists>p. interfaceToMock_fields fl = Inl p"
proof (induction fl)
  case Nil
  then show ?case by simp
next
  case (Cons g gl)
  show ?case
  proof (cases "f = g")
    case True
    show ?thesis
    proof (cases "Names g")
      case Nil
      with True Cons.prems show ?thesis by simp
    next
      case names: (Cons n ns)
      obtain p where "getMethodsFromInterface ms (n @ ''Mock'') = Inl p"
        using Cons.prems(3) by blast
      with True names Cons.prems show ?thesis by simp
    qed
  next
    case False
    with Cons have "\<exists>p. interfaceToMock_fields gl = Inl p" by simp
    then show ?thesis
      by (auto split: expr.splits list.splits sum.splits)
  qed
qed

lemma interfaceToMock_spec_panics:
  assumes "ms \<in> set (spec_interfaces s)"
      and "\<forall>mockName. \<exists>p. getMethodsFromInterface ms mockName = Inl p"
  shows "\<exists>p. interfaceToMock_spec s = Inl p"
proof (cases s)
  case (TypeSpec n e)
  show ?thesis
  proof (cases e)
    case (InterfaceType ms')
    obtain p where "getMethodsFromInterface ms (n @ ''Mock'') = Inl p"
      using assms(2) by blast
    with assms(1) TypeSpec InterfaceType show ?thesis by simp
  next
    case (StructType fl)
    with assms(1) TypeSpec obtain f where "f \<in> set fl" "Type f = InterfaceType ms"
      by (auto split: expr.splits)
    with assms(2) TypeSpec StructType show ?thesis
      using interfaceToMock_fields_panics [of f fl ms] by simp
  qed (use assms TypeSpec in simp_all)
qed (use assms in simp_all)

lemma interfaceToMock_specs_panics:
  "s \<in> set specs \<Longrightarrow> \<exists>p. interfaceToMock_spec s = Inl p \<Longrightarrow>
     \<exists>p. interfaceToMock_specs specs = Inl p"
  by (induction specs) (auto split: sum.splits)

lemma interfaceToMock_decls_panics:
  "GenDecl specs \<in> set decls \<Longrightarrow> \<exists>p. interfaceToMock_specs specs = Inl p \<Longrightarrow>
     \<exists>p. interfaceToMock_decls decls = Inl p"
  by (induction decls) (auto split: sum.splits decl.splits)

text \<open>
  Claim C10: when an interface that the generator visits (a declared interface type, or
  an interface-typed field of a declared struct) has a method with an empty parameter
  list, the rendered parameter text is empty, deriving the argument names from it indexes
  the first token of an empty token list, so that the method is abandoned with index
  out of range (whenever its result list renders), and the call panics instead of
  returning; nothing is written.
\<close>

theorem empty_parameter_list_panics:
  assumes "ParseFile (''package main\<newline>'' @ interfaceCode) = Inr decls"
      and "GenDecl specs \<in> set decls"
      and "s \<in> set specs"
      and "ms \<in> set (spec_interfaces s)"
      and "Field names (FuncType ps rs) \<in> set ms"
      and "ps = None \<or> ps = Some []"
  shows "getParameters ps = Inr '''' \<and> getArgumentNames '''' = Inl IndexOutOfRange
         \<and> (\<forall>mockName r. getParameters rs = Inr r \<longrightarrow>
               getMethodsFromInterface_method mockName (Field names (FuncType ps rs))
                 = Inl IndexOutOfRange)
         \<and> (\<exists>p. interfaceToMock ParseFile writer interfaceCode = (Inl p, writer))"
proof -
  have "\<forall>mockName. \<exists>p. getMethodsFromInterface ms mockName = Inl p"
    using assms(5,6) method_without_parameters getMethodsFromInterface_panics by blast
  then have "\<exists>p. interfaceToMock_spec s = Inl p"
    using assms(4) interfaceToMock_spec_panics by blast
  then have "\<exists>p. interfaceToMock_specs specs = Inl p"
    using assms(3) interfaceToMock_specs_panics by blast
  then have "\<exists>p. interfaceToMock_decls decls = Inl p"
    using assms(2) interfaceToMock_decls_panics by blast
  then have "\<exists>p. interfaceToMock ParseFile writer interfaceCode = (Inl p, writer)"
    using assms(1) by (auto simp: interfaceToMock_def)
  moreover have e: "getParameters ps = Inr ''''"
    using assms(6) by auto
  moreover have "\<forall>mockName r. getParameters rs = Inr r \<longrightarrow>
      getMethodsFromInterface_method mockName (Field names (FuncType ps rs)) = Inl IndexOutOfRange"
    using e by (auto simp: getMethodsFromInterface_method_def getArgumentNames_empty
        split: list.splits)
  ultimately show ?thesis
    by (simp add: getArgumentNames_empty)
qed

theorem empty_parameter_list_panics_witness:
  "interfaceToMock (\<lambda>src. Inr pinger_decls) ''kept'' ''type pinger interface { Ping() error }''
     = (Inl IndexOutOfRange, ''kept'')"
proof -
  have "\<exists>p. interfaceToMock (\<lambda>src. Inr pinger_decls) ''kept''
          ''type pinger interface { Ping() error }'' = (Inl p, ''kept'')"
    using empty_parameter_list_panics [of "\<lambda>src. Inr pinger_decls"
        "''type pinger interface { Ping() error }''" pinger_decls
        "[TypeSpec ''pinger'' (InterfaceType
            [Field [''Ping''] (FuncType (Some []) (Some [Field [] (Ident ''error'')]))])]"
        "TypeSpec ''pinger'' (InterfaceType
            [Field [''Ping''] (FuncType (Some []) (Some [Field [] (Ident ''error'')]))])"
        "[Field [''Ping''] (FuncType (Some []) (Some [Field [] (Ident ''error'')]))]"
        "[''Ping'']" "Some []" "Some [Field [] (Ident ''error'')]" "''kept''"]
    by (simp add: pinger_decls_def)
  then show ?thesis
    by (simp add: interfaceToMock_def pinger_decls_def getMethodsFromInterface_method_def
        getArgumentNames_empty)
qed

text \<open>
  Claim C1 says that for a method declared with zero results the call succeeds and the
  method body is the call-recording statement with no return statement. The generator
  does otherwise: the result list renders to the empty text, \<^verbatim>\<open>getReturnNames\<close> splits
  it into one empty piece and \<^verbatim>\<open>getTypeNameFromString\<close> indexes the last token of an
  empty token list. Every method with zero results makes the generation panic; on
  \<^verbatim>\<open>type notifier interface { Notify(msg string) }\<close> the call panics with index out of
  range and writes nothing.
\<close>

theorem zero_results_panic:
  "(\<exists>p. getMethodsFromInterface_method mockName (Field names (FuncType ps None)) = Inl p)
   \<and> getParameters None = Inr '''' \<and> getReturnNames '''' = Inl IndexOutOfRange
   \<and> interfaceToMock (\<lambda>src. Inr notifier_decls) writer interfaceCode
       = (Inl IndexOutOfRange, writer)"
proof -
  have "getArgumentNames ''msg string'' = Inr ''msg''"
    by (simp add: getArgumentNames_def Split_def Fields_def isSpace_def)
  then have "interfaceToMock (\<lambda>src. Inr notifier_decls) writer interfaceCode
       = (Inl IndexOutOfRange, writer)"
    by (simp add: interfaceToMock_def notifier_decls_def getMethodsFromInterface_method_def
        getReturnNames_empty)
  then show ?thesis
    using method_without_results [of mockName names ps] by (simp add: getReturnNames_empty)
qed

section \<open>Return statements and forwarded arguments\<close>

text \<open>
  The types built from plain identifiers by qualification, pointers, slices and maps, and
  the inline interfaces, render plain.
\<close>

lemma plainType_rendersPlain: "plainType e \<Longrightarrow> rendersPlain e"
proof (induction e rule: plainType.induct)
  case (1 name)
  then show ?case by (simp add: rendersPlain_def)
next
  case (2 x sel)
  then show ?case
    by (cases x) (auto simp: rendersPlain_def plain_def isSpace_def)
next
  case (3 x)
  then show ?case by (simp add: rendersPlain_def split: sum.splits)
next
  case (4 elt)
  then show ?case by (auto simp: rendersPlain_def plain_def isSpace_def split: sum.splits)
next
  case (5 k v)
  then show ?case by (auto simp: rendersPlain_def plain_def isSpace_def split: sum.splits)
next
  case (6 ms)
  then show ?case by (simp add: rendersPlain_def plain_def isSpace_def)
qed simp_all





















end
